theory Spec2Isabelle
  imports Complex_Main "HOL-Library.List_Lexorder" "HOL-Library.Char_ord"
    "HOL-Library.Product_Lexorder" "HOL-Library.Multiset"
begin

section \<open>Numbers and rounding\<close>

text \<open>
  The dashboard computes with Python floats. The embedding idealises them as exact
  rationals: a rate is \<open>sum / count * 100\<close> taken exactly, and \<open>round\<close> sees the
  exact value. Python's \<open>round\<close> rounds a tie to the even neighbour.
\<close>

definition py_round :: "rat \<Rightarrow> int" where
  "py_round x =
     (let f = \<lfloor>x\<rfloor>; d = x - of_int f
      in if d < 1 / 2 then f
         else if 1 / 2 < d then f + 1
         else if even f then f else f + 1)"

text \<open>\<open>round(x, 1)\<close>: one decimal place.\<close>

definition py_round1 :: "rat \<Rightarrow> rat" where
  "py_round1 x = of_int (py_round (x * 10)) / 10"

text \<open>\<open>int(x)\<close> on a float truncates towards zero.\<close>

definition py_int_trunc :: "rat \<Rightarrow> int" where
  "py_int_trunc x = (if 0 \<le> x then \<lfloor>x\<rfloor> else \<lceil>x\<rceil>)"

section \<open>String literals of the source\<close>

text \<open>
  A Python \<open>str\<close> is modelled by the bytes of its UTF-8 encoding. The Korean literals
  of the source are spelled out byte by byte; the names are their romanisations.
\<close>

definition JAEJEOK :: string where \<comment> \<open>status "enrolled" (active)\<close>
  "JAEJEOK = [CHR 0xEC, CHR 0x9E, CHR 0xAC, CHR 0xEC, CHR 0xA0, CHR 0x81]"

definition JEOE :: string where \<comment> \<open>status "excluded"\<close>
  "JEOE = [CHR 0xEC, CHR 0xA0, CHR 0x9C, CHR 0xEC, CHR 0x99, CHR 0xB8]"

definition LIDEO :: string where \<comment> \<open>role "leader"\<close>
  "LIDEO = [CHR 0xEB, CHR 0xA6, CHR 0xAC, CHR 0xEB, CHR 0x8D, CHR 0x94]"

definition GUYEOKJANG :: string where \<comment> \<open>role "zone head"\<close>
  "GUYEOKJANG = [CHR 0xEA, CHR 0xB5, CHR 0xAC, CHR 0xEC, CHR 0x97, CHR 0xAD,
                 CHR 0xEC, CHR 0x9E, CHR 0xA5]"

definition GANSA :: string where \<comment> \<open>role "staff"\<close>
  "GANSA = [CHR 0xEA, CHR 0xB0, CHR 0x84, CHR 0xEC, CHR 0x82, CHR 0xAC]"

definition CHEONGNYEON :: string where \<comment> \<open>role "youth" (regular member)\<close>
  "CHEONGNYEON = [CHR 0xEC, CHR 0xB2, CHR 0xAD, CHR 0xEB, CHR 0x85, CHR 0x84]"

definition WOL :: string where \<comment> \<open>the month suffix, one code point U+C6D4\<close>
  "WOL = [CHR 0xEC, CHR 0x9B, CHR 0x94]"

definition JEONCHE :: string where \<comment> \<open>region filter "all"\<close>
  "JEONCHE = [CHR 0xEC, CHR 0xA0, CHR 0x84, CHR 0xEC, CHR 0xB2, CHR 0xB4]"

definition NYEON :: string where \<comment> \<open>the year suffix, one code point U+B144\<close>
  "NYEON = [CHR 0xEB, CHR 0x85, CHR 0x84]"

definition NYEON_SP :: string where \<comment> \<open>the year suffix followed by a space\<close>
  "NYEON_SP = [CHR 0xEB, CHR 0x85, CHR 0x84, CHR 0x20]"

section \<open>String operations\<close>

text \<open>\<open>sub in s\<close>\<close>

fun str_contains :: "string \<Rightarrow> string \<Rightarrow> bool" where
  "str_contains sub [] = (sub = [])"
| "str_contains sub (c # cs) = (take (length sub) (c # cs) = sub \<or> str_contains sub cs)"

text \<open>
  \<open>s.replace(old, '')\<close> for a non-empty \<open>old\<close>: the occurrences are removed from
  left to right.
\<close>

function str_remove :: "string \<Rightarrow> string \<Rightarrow> string" where
  "str_remove old [] = []"
| "str_remove old (c # cs) =
     (if old \<noteq> [] \<and> take (length old) (c # cs) = old
      then str_remove old (drop (length old) (c # cs))
      else c # str_remove old cs)"
  by pat_completeness auto
termination
  by (relation "measure (\<lambda>(old, s). length s)") auto

text \<open>
  \<open>s.split(sep)\<close> is read through two functions: the text after the first \<open>sep\<close>
  (there is none when \<open>sep\<close> does not occur) and the text before the first \<open>sep\<close>.
  So \<open>s.split(sep)[1]\<close> is \<open>before_first sep\<close> of \<open>after_first sep s\<close>.
\<close>

fun after_first :: "string \<Rightarrow> string \<Rightarrow> string option" where
  "after_first sep [] = None"
| "after_first sep (c # cs) =
     (if take (length sep) (c # cs) = sep then Some (drop (length sep) (c # cs))
      else after_first sep cs)"

fun before_first :: "string \<Rightarrow> string \<Rightarrow> string" where
  "before_first sep [] = []"
| "before_first sep (c # cs) =
     (if take (length sep) (c # cs) = sep then [] else c # before_first sep cs)"

text \<open>\<open>s.strip()\<close>, for the ASCII white space.\<close>

definition is_space :: "char \<Rightarrow> bool" where
  "is_space c = (c \<in> set [CHR 0x20, CHR 0x09, CHR 0x0A, CHR 0x0B, CHR 0x0C, CHR 0x0D,
                             CHR 0x1C, CHR 0x1D, CHR 0x1E, CHR 0x1F])"

definition str_strip :: "string \<Rightarrow> string" where
  "str_strip s = rev (dropWhile is_space (rev (dropWhile is_space s)))"

definition str_endswith :: "string \<Rightarrow> string \<Rightarrow> bool" where
  "str_endswith suf s = (length suf \<le> length s \<and> drop (length s - length suf) s = suf)"

text \<open>
  \<open>Series.unique()\<close>: the distinct values in the order of their first appearance.
\<close>

definition unique :: "'a list \<Rightarrow> 'a list" where
  "unique xs = rev (remdups (rev xs))"

text \<open>
  \<open>df.sort_values(col, ascending=False)\<close> on one key: descending, rows of equal key
  in the order of the input. pandas reverses the column, sorts it in ascending order and
  reverses the result; its default sort keeps equal keys in place on the short tables of
  this application (a handful of zones, a few dozen rows a sheet), which makes the whole
  a stable descending sort. On long tables pandas does not fix the order of equal keys;
  only the statements about ties depend on it.
\<close>

definition sort_values_desc :: "('a \<Rightarrow> 'k::linordered_ab_group_add) \<Rightarrow> 'a list \<Rightarrow> 'a list" where
  "sort_values_desc key df = sort_key (\<lambda>r. - key r) df"

section \<open>Data model\<close>

text \<open>
  The six indicator columns, in the order of the source's \<open>indicators\<close> list:
  overall attendance, in-person attendance, "maisim", ongoing activity, outreach, tithe.
\<close>

datatype indicator =
  Jeonche_chulgyeol | Daemyeon_chulgyeol | Maisim | Sangsi_hwaldong | Jeondo | Sibiljo


text \<open>
  A cell of the date column as \<open>get_all_records\<close> delivers it: a string, or a number
  when the sheet holds one.
\<close>

datatype cell = Str string | Num int

text \<open>
  One row of an activity sheet. The date column is a label (\<open>cell\<close>) in app\_final.py
  and a parsed date in app.py, so its type is a parameter.
\<close>

record 'd activity =
  nalja :: 'd \<comment> \<open>period label or date\<close>
  ireum :: string \<comment> \<open>member name\<close>
  jikbun :: string \<comment> \<open>role\<close>
  sangtae :: string \<comment> \<open>status\<close>
  jeonche_chulgyeol :: int
  daemyeon_chulgyeol :: int
  maisim :: int
  sangsi_hwaldong :: int
  jeondo :: int
  sibiljo :: int

fun flag :: "indicator \<Rightarrow> ('d, 'm) activity_scheme \<Rightarrow> int" where
  "flag Jeonche_chulgyeol r = jeonche_chulgyeol r"
| "flag Daemyeon_chulgyeol r = daemyeon_chulgyeol r"
| "flag Maisim r = maisim r"
| "flag Sangsi_hwaldong r = sangsi_hwaldong r"
| "flag Jeondo r = jeondo r"
| "flag Sibiljo r = sibiljo r"

text \<open>The dictionary \<open>calculate_zone_summary\<close> returns.\<close>

record zone_summary =
  s_jiyeok :: string \<comment> \<open>region\<close>
  s_guyeok :: string \<comment> \<open>zone\<close>
  s_guyeokjang :: string \<comment> \<open>zone head\<close>
  s_jaejeok :: nat \<comment> \<open>number of active rows\<close>
  s_jeonche_chulgyeol :: int
  s_daemyeon_chulgyeol :: int
  s_maisim :: int
  s_sangsi_hwaldong :: int
  s_jeondo :: int
  s_hanjayul :: int
  s_sibiljo :: int

fun rate_of :: "indicator \<Rightarrow> zone_summary \<Rightarrow> int" where
  "rate_of Jeonche_chulgyeol s = s_jeonche_chulgyeol s"
| "rate_of Daemyeon_chulgyeol s = s_daemyeon_chulgyeol s"
| "rate_of Maisim s = s_maisim s"
| "rate_of Sangsi_hwaldong s = s_sangsi_hwaldong s"
| "rate_of Jeondo s = s_jeondo s"
| "rate_of Sibiljo s = s_sibiljo s"

section \<open>Aggregation (app\_final.py)\<close>

text \<open>
  \<open>active_df[col].sum() / total_members * 100 if total_members > 0 else 0\<close>
\<close>

definition indicator_rate :: "indicator \<Rightarrow> ('d, 'm) activity_scheme list \<Rightarrow> rat" where
  "indicator_rate ind active_df =
     (let total_members = length active_df
      in if total_members > 0
         then of_int (sum_list (map (flag ind) active_df)) / of_nat total_members * 100
         else 0)"

definition calculate_zone_summary ::
  "cell activity list \<Rightarrow> string \<Rightarrow> string \<Rightarrow> string \<Rightarrow> zone_summary option" where
  "calculate_zone_summary zone_df month zone_name region =
     (if zone_df = [] then None
      else let month_df = filter (\<lambda>r. nalja r = Str month) zone_df
      in if month_df = [] then None
      else let active_df = filter (\<lambda>r. sangtae r = JAEJEOK) month_df
      in if active_df = [] then None
      else let leader = map ireum
                 (filter (\<lambda>r. jikbun r \<in> set [LIDEO, GUYEOKJANG, GANSA]) active_df);
               leader_name = (case leader of [] \<Rightarrow> ''-'' | n # _ \<Rightarrow> n)
      in Some \<lparr> s_jiyeok = region,
                s_guyeok = zone_name,
                s_guyeokjang = leader_name,
                s_jaejeok = length active_df,
                s_jeonche_chulgyeol = py_round (indicator_rate Jeonche_chulgyeol active_df),
                s_daemyeon_chulgyeol = py_round (indicator_rate Daemyeon_chulgyeol active_df),
                s_maisim = py_round (indicator_rate Maisim active_df),
                s_sangsi_hwaldong = py_round (indicator_rate Sangsi_hwaldong active_df),
                s_jeondo = py_round (indicator_rate Jeondo active_df),
                s_hanjayul = py_round (indicator_rate Jeondo active_df),
                s_sibiljo = py_round (indicator_rate Sibiljo active_df) \<rparr>)"

section \<open>Composite score\<close>






section \<open>Ranking and regional roll-up (render\_scoreboard\_tab)\<close>





text \<open>\<open>Series.mean()\<close> of an integer column of a non-empty table.\<close>

definition column_mean :: "('a \<Rightarrow> int) \<Rightarrow> 'a list \<Rightarrow> rat" where
  "column_mean col df = of_int (sum_list (map col df)) / of_nat (length df)"

text \<open>
  The total row of a region in app\_final.py: \<open>int(region_df[col].mean())\<close>, for the
  rows of the region; no row is shown for a region without zones.
\<close>

definition region_total :: "indicator \<Rightarrow> string \<Rightarrow> zone_summary list \<Rightarrow> int option" where
  "region_total ind region summary_df =
     (let region_df = filter (\<lambda>s. s_jiyeok s = region) summary_df
      in if region_df = [] then None
         else Some (py_int_trunc (column_mean (rate_of ind) region_df)))"

text \<open>
  The regional table of app\_v2.py: \<open>groupby(region).agg(mean)\<close>, then \<open>round(1)\<close>.
\<close>

definition region_summary_v2 :: "indicator \<Rightarrow> string \<Rightarrow> zone_summary list \<Rightarrow> rat option" where
  "region_summary_v2 ind region summary_df =
     (let region_df = filter (\<lambda>s. s_jiyeok s = region) summary_df
      in if region_df = [] then None
         else Some (py_round1 (column_mean (rate_of ind) region_df)))"

text \<open>
  The member-weighted mean, which the roll-up is not: each zone's rate counted once per
  active member.
\<close>

definition member_weighted_mean :: "indicator \<Rightarrow> zone_summary list \<Rightarrow> rat" where
  "member_weighted_mean ind region_df =
     of_int (\<Sum>s\<leftarrow>region_df. rate_of ind s * int (s_jaejeok s))
       / of_nat (\<Sum>s\<leftarrow>region_df. s_jaejeok s)"

section \<open>The spreadsheet\<close>

text \<open>
  The spreadsheet maps a worksheet name to its rows; a name without a worksheet maps to
  \<open>None\<close>. \<open>load_zone_data\<close> returns the rows whose date cell is not the empty string,
  and an empty table when the worksheet is missing. \<open>save_zone_data\<close> rewrites the whole
  worksheet, creating it when missing. Calls to the backend are taken to succeed, and a
  read sees the last write: the application clears the cache in front of
  \<open>load_zone_data\<close> after each successful write-back, and the cache is left out here.
\<close>

type_synonym sheets = "string \<rightharpoonup> cell activity list"

definition load_zone_data :: "sheets \<Rightarrow> string \<Rightarrow> cell activity list" where
  "load_zone_data client zone_name =
     (case client zone_name of
        None \<Rightarrow> []
      | Some data \<Rightarrow> filter (\<lambda>r. nalja r \<noteq> Str '''') data)"

definition save_zone_data :: "sheets \<Rightarrow> string \<Rightarrow> cell activity list \<Rightarrow> sheets" where
  "save_zone_data client zone_name df = client(zone_name \<mapsto> df)"

text \<open>One row of the roster sheet Record\_DB.\<close>

record member =
  m_ireum :: string \<comment> \<open>name\<close>
  m_jiyeok :: string \<comment> \<open>region\<close>
  m_guyeok :: string \<comment> \<open>zone\<close>
  m_jikbun :: string \<comment> \<open>role\<close>
  m_sangtae :: string \<comment> \<open>status\<close>
  m_iphoeil :: string \<comment> \<open>enrollment date\<close>

section \<open>Period labels\<close>

text \<open>
  The sort key of a date cell:
  \<open>int(x.replace(WOL, '')) if isinstance(x, str) and WOL in x else 0\<close>.
  Python's \<open>int\<close> on a string is the parameter \<open>to_int\<close>; it returns \<open>None\<close> where
  \<open>int\<close> raises ValueError.
\<close>

definition month_sort_key :: "(string \<Rightarrow> int option) \<Rightarrow> cell \<Rightarrow> int option" where
  "month_sort_key to_int x =
     (case x of
        Str s \<Rightarrow> if str_contains WOL s then to_int (str_remove WOL s) else Some 0
      | Num n \<Rightarrow> Some 0)"

text \<open>The column \<open>_sort_key\<close>; \<open>None\<close> when \<open>apply\<close> raises on some row.\<close>

definition sort_keys :: "(string \<Rightarrow> int option) \<Rightarrow> cell activity list \<Rightarrow> int list option" where
  "sort_keys to_int df = those (map (\<lambda>r. month_sort_key to_int (nalja r)) df)"

definition sort_by_month ::
  "(string \<Rightarrow> int option) \<Rightarrow> cell activity list \<Rightarrow> cell activity list option" where
  "sort_by_month to_int df =
     (case sort_keys to_int df of
        None \<Rightarrow> None
      | Some ks \<Rightarrow> Some (map fst (sort_values_desc snd (zip df ks))))"

text \<open>
  The normalisation of the target month at the head of \<open>create_monthly_records\<close>;
  \<open>None\<close> when \<open>split(...)[1]\<close> raises IndexError.
\<close>

definition month_label :: "string \<Rightarrow> string option" where
  "month_label target_month =
     (if str_contains NYEON target_month
      then (case after_first NYEON_SP target_month of
              None \<Rightarrow> None
            | Some rest \<Rightarrow> Some (str_strip (str_remove WOL (before_first NYEON_SP rest)) @ WOL))
      else Some (if str_endswith WOL target_month then target_month else target_month @ WOL))"

text \<open>A digit string read as a number: the \<open>to_int\<close> of the examples.\<close>

definition digit_value :: "char \<Rightarrow> int option" where
  "digit_value c =
     (if CHR ''0'' \<le> c \<and> c \<le> CHR ''9'' then Some (int (of_char c) - 48) else None)"

fun digits_value :: "int \<Rightarrow> string \<Rightarrow> int option" where
  "digits_value acc [] = Some acc"
| "digits_value acc (c # cs) =
     (case digit_value c of None \<Rightarrow> None | Some d \<Rightarrow> digits_value (acc * 10 + d) cs)"

definition digits_to_int :: "string \<Rightarrow> int option" where
  "digits_to_int s = (if s = [] then None else digits_value 0 s)"

section \<open>Provisioning a month (create\_monthly\_records)\<close>

text \<open>A record with all six flags zero.\<close>

definition blank_record :: "cell \<Rightarrow> string \<Rightarrow> string \<Rightarrow> string \<Rightarrow> cell activity" where
  "blank_record d n j s =
     \<lparr> nalja = d, ireum = n, jikbun = j, sangtae = s,
       jeonche_chulgyeol = 0, daemyeon_chulgyeol = 0, maisim = 0,
       sangsi_hwaldong = 0, jeondo = 0, sibiljo = 0 \<rparr>"

definition new_records :: "string \<Rightarrow> member list \<Rightarrow> cell activity list" where
  "new_records date_str zone_members =
     map (\<lambda>m. blank_record (Str date_str) (m_ireum m) (m_jikbun m) (m_sangtae m)) zone_members"

text \<open>
  The body of the loop over the zones, on the spreadsheet and the success count;
  \<open>None\<close> when the body raises (the sort key of some label).
\<close>

definition provision_zone ::
  "(string \<Rightarrow> int option) \<Rightarrow> member list \<Rightarrow> string \<Rightarrow> string \<Rightarrow> sheets \<times> nat
     \<Rightarrow> (sheets \<times> nat) option" where
  "provision_zone to_int filtered_df date_str zone st =
     (let client = fst st; success_count = snd st
      in if zone = '''' then Some st
      else let zone_members =
                 filter (\<lambda>m. m_guyeok m = zone \<and> m_sangtae m = JAEJEOK) filtered_df
      in if zone_members = [] then Some st
      else let existing_df = load_zone_data client zone;
               new_df = new_records date_str zone_members;
               combined_df = (if existing_df \<noteq> [] then new_df @ existing_df else new_df)
      in case sort_by_month to_int combined_df of
           None \<Rightarrow> None
         | Some sorted_df \<Rightarrow> Some (save_zone_data client zone sorted_df, success_count + 1))"

text \<open>
  The loop. An exception leaves the function through its handler, with the worksheets
  written so far kept: the result is the spreadsheet and the count, or no count.
\<close>

fun provision_loop ::
  "(string \<Rightarrow> int option) \<Rightarrow> member list \<Rightarrow> string \<Rightarrow> string list \<Rightarrow> sheets \<times> nat
     \<Rightarrow> sheets \<times> nat option" where
  "provision_loop to_int filtered_df date_str [] st = (fst st, Some (snd st))"
| "provision_loop to_int filtered_df date_str (zone # zones) st =
     (case provision_zone to_int filtered_df date_str zone st of
        None \<Rightarrow> (fst st, None)
      | Some st' \<Rightarrow> provision_loop to_int filtered_df date_str zones st')"

definition create_monthly_records ::
  "(string \<Rightarrow> int option) \<Rightarrow> sheets \<Rightarrow> member list \<Rightarrow> string \<Rightarrow> string \<Rightarrow> sheets \<times> bool" where
  "create_monthly_records to_int client master_df target_month region_filter =
     (case month_label target_month of
        None \<Rightarrow> (client, False)
      | Some date_str \<Rightarrow>
          let filtered_df =
                (if region_filter \<noteq> JEONCHE
                 then filter (\<lambda>m. m_jiyeok m = region_filter) master_df
                 else master_df);
              zones = unique (map m_guyeok filtered_df)
          in case provision_loop to_int filtered_df date_str zones (client, 0) of
               (client', None) \<Rightarrow> (client', False)
             | (client', Some success_count) \<Rightarrow> (client', success_count > 0))"

text \<open>The rows of a period in a table.\<close>

definition rows_of_period :: "string \<Rightarrow> cell activity list \<Rightarrow> cell activity list" where
  "rows_of_period date_str df = filter (\<lambda>r. nalja r = Str date_str) df"

section \<open>Moving a member (sync\_member\_to\_zones)\<close>

text \<open>\<open>old_df.loc[old_df[name] == member_name, status] = excluded\<close>\<close>

definition exclude_member :: "string \<Rightarrow> cell activity list \<Rightarrow> cell activity list" where
  "exclude_member member_name old_df =
     map (\<lambda>r. if ireum r = member_name then r\<lparr>sangtae := JEOE\<rparr> else r) old_df"

definition sync_old_zone :: "sheets \<Rightarrow> string \<Rightarrow> string \<Rightarrow> string option \<Rightarrow> sheets" where
  "sync_old_zone client member_name new_zone old_zone =
     (case old_zone of
        None \<Rightarrow> client
      | Some oz \<Rightarrow>
          if oz \<noteq> '''' \<and> oz \<noteq> new_zone
          then let old_df = load_zone_data client oz
               in if old_df \<noteq> []
                  then save_zone_data client oz (exclude_member member_name old_df)
                  else client
          else client)"






section \<open>The flat record table (app.py)\<close>

text \<open>
  In app.py every row carries its region and zone, and the date column is parsed by
  \<open>pd.to_datetime(..., errors='coerce')\<close>: a date (year, month, day), or \<open>None\<close> for NaT.
  A month label printed by \<open>strftime\<close> from a date is represented by the pair (year,
  month) it is printed from.
\<close>

type_synonym date = "int \<times> int \<times> int"

record entry = "date option activity" +
  jiyeok :: string
  guyeok :: string

definition year_month :: "date option \<Rightarrow> (int \<times> int) option" where
  "year_month d = (case d of None \<Rightarrow> None | Some (y, m, _) \<Rightarrow> Some (y, m))"

text \<open>
  \<open>filter_data(df, month, region, zone)\<close>; \<open>month\<close> is \<open>None\<close> when no month is
  selected.
\<close>

definition filter_data ::
  "entry list \<Rightarrow> (int \<times> int) option \<Rightarrow> string \<Rightarrow> string \<Rightarrow> entry list" where
  "filter_data df month region zone =
     (let f1 = (case month of
                  None \<Rightarrow> df
                | Some ym \<Rightarrow> if df \<noteq> [] then filter (\<lambda>r. year_month (nalja r) = Some ym) df
                             else df);
          f2 = (if region \<noteq> JEONCHE then filter (\<lambda>r. jiyeok r = region) f1 else f1);
          f3 = (if zone \<noteq> JEONCHE then filter (\<lambda>r. guyeok r = zone) f2 else f2)
      in f3)"


text \<open>
  A line of the list of absentees: name, region, zone, role, and the latest attendance
  date, \<open>None\<close> standing for the text "no record".
\<close>

record absentee =
  a_ireum :: string
  a_jiyeok :: string
  a_guyeok :: string
  a_jikbun :: string
  a_last_attendance :: "date option"

datatype error = ValueError

text \<open>
  The rows of a person with the attendance flag set, newest date first and the rows
  without a date last, as \<open>sort_values(date, ascending=False)\<close> leaves them.
\<close>

definition person_history :: "entry list \<Rightarrow> string \<Rightarrow> date option list" where
  "person_history df name =
     (let h = map nalja (filter (\<lambda>r. ireum r = name \<and> jeonche_chulgyeol r = 1) df)
      in map Some (rev (sort (List.map_filter id h)))
           @ filter (\<lambda>d. d = None) h)"

text \<open>
  \<open>person_history[date].iloc[0].strftime(...)\<close>, or "no record" for an empty history;
  \<open>strftime\<close> on NaT raises.
\<close>

definition last_attendance :: "entry list \<Rightarrow> string \<Rightarrow> error + date option" where
  "last_attendance df name =
     (case person_history df name of
        [] \<Rightarrow> Inr None
      | None # _ \<Rightarrow> Inl ValueError
      | Some d # _ \<Rightarrow> Inr (Some d))"

fun missing_list :: "entry list \<Rightarrow> entry list \<Rightarrow> error + absentee list" where
  "missing_list df [] = Inr []"
| "missing_list df (row # rows) =
     (case last_attendance df (ireum row) of
        Inl e \<Rightarrow> Inl e
      | Inr la \<Rightarrow>
          (case missing_list df rows of
             Inl e \<Rightarrow> Inl e
           | Inr rest \<Rightarrow>
               Inr (\<lparr> a_ireum = ireum row, a_jiyeok = jiyeok row, a_guyeok = guyeok row,
                      a_jikbun = jikbun row, a_last_attendance = la \<rparr> # rest)))"

text \<open>
  \<open>render_missing_sheep(df)\<close>: the table it shows (empty when it shows a message
  instead).
\<close>

definition render_missing_sheep :: "entry list \<Rightarrow> error + absentee list" where
  "render_missing_sheep df =
     (if df = [] then Inr []
      else let active_df = filter (\<lambda>r. sangtae r = JAEJEOK) df;
               missing = filter (\<lambda>r. jeonche_chulgyeol r = 0) active_df
           in if missing = [] then Inr [] else missing_list df missing)"

text \<open>What \<open>main\<close> passes: the table filtered by month, region and zone.\<close>

definition main_missing_sheep ::
  "entry list \<Rightarrow> (int \<times> int) option \<Rightarrow> string \<Rightarrow> string \<Rightarrow> error + absentee list" where
  "main_missing_sheep df selected_month selected_region selected_zone =
     render_missing_sheep (filter_data df selected_month selected_region selected_zone)"

section \<open>The zone summary of app\_v2.py\<close>

text \<open>
  In app\_v2.py the date column holds day dates and the month is a label "year, month".
  \<open>to_datetime\<close> stands for \<open>pd.to_datetime(..., errors='coerce')\<close> on a cell. The
  result is an error when the label does not split in two or a part is not a number, and
  otherwise the summary, or \<open>None\<close> for "no data".
\<close>

definition split_month :: "(string \<Rightarrow> int option) \<Rightarrow> string \<Rightarrow> (int \<times> int) option" where
  "split_month to_int month =
     (case after_first NYEON_SP month of
        None \<Rightarrow> None
      | Some month_num \<Rightarrow>
          if str_contains NYEON_SP month_num then None
          else (case to_int (before_first NYEON_SP month) of
                  None \<Rightarrow> None
                | Some y \<Rightarrow>
                    (case to_int (str_strip (str_remove WOL month_num)) of
                       None \<Rightarrow> None
                     | Some m \<Rightarrow> Some (y, m))))"

definition indicator_rate_v2 :: "indicator \<Rightarrow> ('d, 'm) activity_scheme list \<Rightarrow> rat" where
  "indicator_rate_v2 ind active_df =
     of_int (sum_list (map (flag ind) active_df))
       / of_nat (length (unique (map ireum active_df))) * 100"

definition calculate_zone_summary_v2 ::
  "(cell \<Rightarrow> date option) \<Rightarrow> (string \<Rightarrow> int option) \<Rightarrow> cell activity list \<Rightarrow> string
     \<Rightarrow> string \<Rightarrow> string \<Rightarrow> error + zone_summary option" where
  "calculate_zone_summary_v2 to_datetime to_int zone_df month zone_name region =
     (if zone_df = [] then Inr None
      else case split_month to_int month of
        None \<Rightarrow> Inl ValueError
      | Some ym \<Rightarrow>
          let month_df = filter (\<lambda>r. year_month (to_datetime (nalja r)) = Some ym) zone_df
          in if month_df = [] then Inr None
          else let active_df = filter (\<lambda>r. sangtae r = JAEJEOK) month_df
          in if active_df = [] then Inr None
          else let leader = map ireum
                     (filter (\<lambda>r. jikbun r \<in> set [LIDEO, GUYEOKJANG, GANSA]) active_df);
                   leader_name = (case leader of [] \<Rightarrow> ''-'' | n # _ \<Rightarrow> n);
                   han_ja_rate = indicator_rate_v2 Jeondo active_df
          in Inr (Some
               \<lparr> s_jiyeok = region,
                 s_guyeok = zone_name,
                 s_guyeokjang = leader_name,
                 s_jaejeok = length (unique (map ireum active_df)),
                 s_jeonche_chulgyeol = py_round (indicator_rate_v2 Jeonche_chulgyeol active_df),
                 s_daemyeon_chulgyeol = py_round (indicator_rate_v2 Daemyeon_chulgyeol active_df),
                 s_maisim = py_round (indicator_rate_v2 Maisim active_df),
                 s_sangsi_hwaldong = py_round (indicator_rate_v2 Sangsi_hwaldong active_df),
                 s_jeondo = py_round (indicator_rate_v2 Jeondo active_df),
                 s_hanjayul = py_round han_ja_rate,
                 s_sibiljo = py_round (indicator_rate_v2 Sibiljo active_df) \<rparr>))"

section \<open>The weighted sum with its divisor as a parameter\<close>




section \<open>Example data\<close>

text \<open>
  Labels and small tables for the examples: the months "10" and "11", the zones "1",
  "2" and "3", the region Dowon.
\<close>

definition GUYEOK :: string where \<comment> \<open>"zone", the suffix of a zone label\<close>
  "GUYEOK = [CHR 0xEA, CHR 0xB5, CHR 0xAC, CHR 0xEC, CHR 0x97, CHR 0xAD]"

definition DOWON :: string where
  "DOWON = [CHR 0xEB, CHR 0x8F, CHR 0x84, CHR 0xEC, CHR 0x9B, CHR 0x90]"

definition M10 :: string where
  "M10 = ''10'' @ WOL"

definition M11 :: string where
  "M11 = ''11'' @ WOL"

definition ZONE1 :: string where
  "ZONE1 = ''1'' @ GUYEOK"

definition ZONE2 :: string where
  "ZONE2 = ''2'' @ GUYEOK"

definition ZONE3 :: string where
  "ZONE3 = ''3'' @ GUYEOK"

text \<open>
  \<open>pd.to_datetime\<close> of the examples: a cell "y-m-d" of digit strings.
\<close>

definition iso_date :: "cell \<Rightarrow> date option" where
  "iso_date x =
     (case x of
        Num _ \<Rightarrow> None
      | Str s \<Rightarrow>
          (case after_first ''-'' s of
             None \<Rightarrow> None
           | Some md \<Rightarrow>
               (case after_first ''-'' md of
                  None \<Rightarrow> None
                | Some d \<Rightarrow>
                    (case (digits_to_int (before_first ''-'' s),
                           digits_to_int (before_first ''-'' md), digits_to_int d) of
                       (Some y, Some m, Some dd) \<Rightarrow> Some (y, m, dd)
                     | _ \<Rightarrow> None))))"

text \<open>
  A zone sheet: in month 11 the leader Kim (attended, did outreach), Lee (neither) and
  the excluded Park; in month 10 Kim.
\<close>

definition zone_sheet :: "cell activity list" where
  "zone_sheet =
     [ (blank_record (Str M11) ''Kim'' LIDEO JAEJEOK)\<lparr>jeonche_chulgyeol := 1, jeondo := 1\<rparr>,
       blank_record (Str M11) ''Lee'' CHEONGNYEON JAEJEOK,
       (blank_record (Str M11) ''Park'' CHEONGNYEON JEOE)\<lparr>jeonche_chulgyeol := 1\<rparr>,
       (blank_record (Str M10) ''Kim'' LIDEO JAEJEOK)\<lparr>jeonche_chulgyeol := 1\<rparr> ]"

text \<open>The same month in the layout of app\_v2.py, with day dates.\<close>

definition zone_sheet_v2 :: "cell activity list" where
  "zone_sheet_v2 =
     [ (blank_record (Str ''2024-11-01'') ''Kim'' LIDEO JAEJEOK)
         \<lparr>jeonche_chulgyeol := 1, jeondo := 1\<rparr>,
       blank_record (Str ''2024-11-01'') ''Lee'' CHEONGNYEON JAEJEOK ]"

definition month_v2 :: string where
  "month_v2 = ''2024'' @ NYEON_SP @ ''11'' @ WOL"

text \<open>A flat table of app.py: Kim attended on 6 October and was absent on 3 November.\<close>

definition flat_row :: "date \<Rightarrow> string \<Rightarrow> int \<Rightarrow> entry" where
  "flat_row d n a =
     \<lparr> nalja = Some d, ireum = n, jikbun = CHEONGNYEON, sangtae = JAEJEOK,
       jeonche_chulgyeol = a, daemyeon_chulgyeol = 0, maisim = 0,
       sangsi_hwaldong = 0, jeondo = 0, sibiljo = 0, jiyeok = DOWON, guyeok = ZONE1 \<rparr>"

definition flat_table :: "entry list" where
  "flat_table = [flat_row (2024, 10, 6) ''Kim'' 1, flat_row (2024, 11, 3) ''Kim'' 0]"

text \<open>Summaries of two zones of one region with rates 50 and 51 and unequal sizes.\<close>

definition summary_of :: "string \<Rightarrow> nat \<Rightarrow> int \<Rightarrow> zone_summary" where
  "summary_of z n rate =
     \<lparr> s_jiyeok = DOWON, s_guyeok = z, s_guyeokjang = ''-'', s_jaejeok = n,
       s_jeonche_chulgyeol = rate, s_daemyeon_chulgyeol = rate, s_maisim = rate,
       s_sangsi_hwaldong = rate, s_jeondo = rate, s_hanjayul = rate, s_sibiljo = rate \<rparr>"


text \<open>A roster: zone 3 with four active members.\<close>

definition roster_member :: "string \<Rightarrow> string \<Rightarrow> member" where
  "roster_member n z =
     \<lparr> m_ireum = n, m_jiyeok = DOWON, m_guyeok = z, m_jikbun = CHEONGNYEON,
       m_sangtae = JAEJEOK, m_iphoeil = '''' \<rparr>"

definition roster :: "member list" where
  "roster = [roster_member ''Kim'' ZONE3, roster_member ''Lee'' ZONE3,
             roster_member ''Park'' ZONE3, roster_member ''Choi'' ZONE3]"






section \<open>Properties of the composite score\<close>







section \<open>Rounding keeps a rate between its integer bounds\<close>




section \<open>Rates lie between 0 and 100\<close>









section \<open>Facts about the example data\<close>

lemma blank_sel [simp]:
  "nalja (blank_record d n j s) = d" "ireum (blank_record d n j s) = n"
  "jikbun (blank_record d n j s) = j" "sangtae (blank_record d n j s) = s"
  "jeonche_chulgyeol (blank_record d n j s) = 0" "daemyeon_chulgyeol (blank_record d n j s) = 0"
  "maisim (blank_record d n j s) = 0" "sangsi_hwaldong (blank_record d n j s) = 0"
  "jeondo (blank_record d n j s) = 0" "sibiljo (blank_record d n j s) = 0"
  by (simp_all add: blank_record_def)

lemma label_facts:
  "M10 \<noteq> M11" "M11 \<noteq> M10" "JAEJEOK \<noteq> JEOE" "JEOE \<noteq> JAEJEOK"
  "LIDEO \<noteq> CHEONGNYEON" "CHEONGNYEON \<noteq> LIDEO" "CHEONGNYEON \<noteq> GUYEOKJANG" "CHEONGNYEON \<noteq> GANSA"
  "ZONE1 \<noteq> ZONE2" "ZONE2 \<noteq> ZONE1" "ZONE1 \<noteq> ZONE3" "ZONE3 \<noteq> ZONE1"
  "M11 \<noteq> []" "M10 \<noteq> []" "ZONE1 \<noteq> []" "ZONE2 \<noteq> []" "ZONE3 \<noteq> []"
  by (simp_all add: M10_def M11_def JAEJEOK_def JEOE_def LIDEO_def CHEONGNYEON_def
      GUYEOKJANG_def GANSA_def ZONE1_def ZONE2_def ZONE3_def)

lemma zone_sheet_summary:
  "calculate_zone_summary zone_sheet M11 ZONE3 DOWON =
     Some \<lparr> s_jiyeok = DOWON, s_guyeok = ZONE3, s_guyeokjang = ''Kim'', s_jaejeok = 2,
            s_jeonche_chulgyeol = 50, s_daemyeon_chulgyeol = 0, s_maisim = 0,
            s_sangsi_hwaldong = 0, s_jeondo = 50, s_hanjayul = 50, s_sibiljo = 0 \<rparr>"
  by (simp add: calculate_zone_summary_def zone_sheet_def label_facts indicator_rate_def
      py_round_def Let_def)

lemma zone_sheet_v2_summary:
  "calculate_zone_summary_v2 iso_date digits_to_int zone_sheet_v2 month_v2 ZONE3 DOWON =
     Inr (Some \<lparr> s_jiyeok = DOWON, s_guyeok = ZONE3, s_guyeokjang = ''Kim'', s_jaejeok = 2,
            s_jeonche_chulgyeol = 50, s_daemyeon_chulgyeol = 0, s_maisim = 0,
            s_sangsi_hwaldong = 0, s_jeondo = 50, s_hanjayul = 50, s_sibiljo = 0 \<rparr>)"
  by (simp add: calculate_zone_summary_v2_def zone_sheet_v2_def label_facts indicator_rate_v2_def
      py_round_def Let_def split_month_def month_v2_def NYEON_SP_def WOL_def iso_date_def
      digits_to_int_def digit_value_def year_month_def unique_def str_strip_def is_space_def
      less_eq_char_def)




section \<open>The two outreach columns\<close>

text \<open>
  C10. In every zone summary, of app\_final.py and of app\_v2.py, the field
  \<open>hanjayul\<close> equals the field \<open>jeondo\<close>: both are the rounded outreach rate.
\<close>

theorem hanjayul_equals_jeondo:
  "(calculate_zone_summary zone_df month zone_name region = Some s \<longrightarrow>
      s_hanjayul s = s_jeondo s)
   \<and> (calculate_zone_summary_v2 to_datetime to_int zone_df' month' zone_name' region'
        = Inr (Some s') \<longrightarrow>
      s_hanjayul s' = s_jeondo s')"
  by (auto simp: calculate_zone_summary_def calculate_zone_summary_v2_def Let_def
      split: if_splits option.splits)

theorem hanjayul_equals_jeondo_witness:
  "map_option s_hanjayul (calculate_zone_summary zone_sheet M11 ZONE3 DOWON) = Some 50
   \<and> map_option s_jeondo (calculate_zone_summary zone_sheet M11 ZONE3 DOWON) = Some 50
   \<and> map_sum id (map_option s_hanjayul)
        (calculate_zone_summary_v2 iso_date digits_to_int zone_sheet_v2 month_v2 ZONE3 DOWON)
      = Inr (Some 50)
   \<and> map_sum id (map_option s_jeondo)
        (calculate_zone_summary_v2 iso_date digits_to_int zone_sheet_v2 month_v2 ZONE3 DOWON)
      = Inr (Some 50)"
  using hanjayul_equals_jeondo
    [where zone_df = zone_sheet and month = M11 and zone_name = ZONE3 and region = DOWON
       and to_datetime = iso_date and to_int = digits_to_int and zone_df' = zone_sheet_v2
       and month' = month_v2 and zone_name' = ZONE3 and region' = DOWON]
    zone_sheet_summary zone_sheet_v2_summary
  by simp

section \<open>Scaling the weights and the divisor\<close>








section \<open>Ranking\<close>




lemma sort_values_desc_mset:
  "mset (sort_values_desc key df) = mset df"
  by (simp add: sort_values_desc_def)







section \<open>Regional roll-up\<close>

lemma rate_of_jaejeok_update [simp]: "rate_of ind (s\<lparr>s_jaejeok := n\<rparr>) = rate_of ind s"
  by (cases ind) simp_all

lemma column_mean_jaejeok:
  "column_mean (rate_of ind) (map (\<lambda>s. s\<lparr>s_jaejeok := n s\<rparr>) zs) = column_mean (rate_of ind) zs"
  by (simp add: column_mean_def o_def)

lemma filter_region_jaejeok:
  "filter (\<lambda>s. s_jiyeok s = region) (map (\<lambda>s. s\<lparr>s_jaejeok := n s\<rparr>) df)
     = map (\<lambda>s. s\<lparr>s_jaejeok := n s\<rparr>) (filter (\<lambda>s. s_jiyeok s = region) df)"
  by (simp add: filter_map o_def)

text \<open>
  C4, as amended. For a region with at least one zone summary, the roll-up of an
  indicator is the unweighted mean of the zones' rates, truncated to a whole number in
  the total row of app\_final.py and rounded to one decimal place in the regional table
  of app\_v2.py; changing the member counts of the zones changes neither.
\<close>

theorem region_rollup_rounded_zone_mean:
  assumes "region_df = filter (\<lambda>s. s_jiyeok s = region) summary_df" and "region_df \<noteq> []"
  shows "region_total ind region summary_df =
           Some (py_int_trunc
                  (of_int (\<Sum>s\<leftarrow>region_df. rate_of ind s) / of_nat (length region_df)))
       \<and> region_summary_v2 ind region summary_df =
           Some (py_round1
                  (of_int (\<Sum>s\<leftarrow>region_df. rate_of ind s) / of_nat (length region_df)))
       \<and> region_total ind region (map (\<lambda>s. s\<lparr>s_jaejeok := n s\<rparr>) summary_df)
           = region_total ind region summary_df
       \<and> region_summary_v2 ind region (map (\<lambda>s. s\<lparr>s_jaejeok := n s\<rparr>) summary_df)
           = region_summary_v2 ind region summary_df"
  using assms
  by (simp add: region_total_def region_summary_v2_def Let_def column_mean_def
      filter_region_jaejeok column_mean_jaejeok [unfolded column_mean_def] o_def)

theorem region_rollup_rounded_zone_mean_witness:
  "region_total Jeonche_chulgyeol DOWON [summary_of ZONE1 4 100, summary_of ZONE2 1 0] = Some 50
   \<and> region_summary_v2 Jeonche_chulgyeol DOWON [summary_of ZONE1 4 100, summary_of ZONE2 1 0]
       = Some 50
   \<and> member_weighted_mean Jeonche_chulgyeol [summary_of ZONE1 4 100, summary_of ZONE2 1 0] = 80"
  using region_rollup_rounded_zone_mean
    [where region_df = "[summary_of ZONE1 4 100, summary_of ZONE2 1 0]" and region = DOWON
       and summary_df = "[summary_of ZONE1 4 100, summary_of ZONE2 1 0]"
       and ind = Jeonche_chulgyeol]
  by (simp add: summary_of_def py_int_trunc_def py_round1_def py_round_def
      member_weighted_mean_def)

text \<open>
  C4, the counterexample. Two zones with rates 50 and 51: the total row shows 50, the
  mean of the rates is 50.5.
\<close>

theorem region_rollup_counterexample:
  "map_option rat_of_int
     (region_total Jeonche_chulgyeol DOWON [summary_of ZONE1 4 50, summary_of ZONE2 2 51])
   \<noteq> Some (column_mean (rate_of Jeonche_chulgyeol)
             (filter (\<lambda>s. s_jiyeok s = DOWON) [summary_of ZONE1 4 50, summary_of ZONE2 2 51]))"
  by code_simp

section \<open>Provisioning twice\<close>

text \<open>
  C3. On a roster whose zone 3 has four active members and an empty spreadsheet, the
  first run for month 11 leaves four rows of that month in the zone's sheet, and a
  second run with the same arguments leaves eight: the new block is put in front of the
  rows that are there, with no check for the period.
\<close>

theorem provision_twice_duplicates:
  "length (rows_of_period M11 (load_zone_data
      (fst (create_monthly_records digits_to_int Map.empty roster M11 JEONCHE)) ZONE3)) = 4
   \<and> length (rows_of_period M11 (load_zone_data
      (fst (create_monthly_records digits_to_int
        (fst (create_monthly_records digits_to_int Map.empty roster M11 JEONCHE))
        roster M11 JEONCHE)) ZONE3)) = 8"
  by code_simp

section \<open>The list of absentees\<close>

text \<open>
  C8. Kim attended on 6 October 2024 and was absent on 3 November 2024. With November
  selected, the list names Kim with "no record" as the latest attendance, because the
  history is looked up in the filtered table; in the full table the latest attendance is
  6 October.
\<close>

theorem missing_sheep_history_filtered:
  "main_missing_sheep flat_table (Some (2024, 11)) JEONCHE JEONCHE =
     Inr [\<lparr> a_ireum = ''Kim'', a_jiyeok = DOWON, a_guyeok = ZONE1, a_jikbun = CHEONGNYEON,
            a_last_attendance = None \<rparr>]
   \<and> last_attendance flat_table ''Kim'' = Inr (Some (2024, 10, 6))"
  by code_simp

section \<open>Reading and writing worksheets\<close>

lemma load_save_same:
  "load_zone_data (save_zone_data c z df) z = filter (\<lambda>r. nalja r \<noteq> Str '''') df"
  by (simp add: load_zone_data_def save_zone_data_def)

lemma load_save_other:
  "z' \<noteq> z \<Longrightarrow> load_zone_data (save_zone_data c z df) z' = load_zone_data c z'"
  by (simp add: load_zone_data_def save_zone_data_def)



section \<open>The sort keys and the latest period\<close>

lemma those_map_length: "those (map f xs) = Some ks \<Longrightarrow> length ks = length xs"
  by (induction xs arbitrary: ks) (auto split: option.splits)










section \<open>The old zone\<close>





lemma sync_old_zone_other: "oz \<noteq> Some z \<Longrightarrow> sync_old_zone c n nz oz z = c z"
  by (auto simp: sync_old_zone_def save_zone_data_def Let_def split: option.splits)





section \<open>The new zone\<close>







section \<open>The old zone after a move\<close>




section \<open>What a provisioning run adds\<close>

lemma sort_by_month_mset:
  assumes "sort_by_month ti df = Some s"
  shows "mset s = mset df"
proof -
  obtain ks where ks: "sort_keys ti df = Some ks"
    and s: "s = map fst (sort_values_desc snd (zip df ks))"
    using assms by (auto simp: sort_by_month_def split: option.splits)
  have len: "length df = length ks"
    using ks by (simp add: sort_keys_def those_map_length)
  have "mset s = image_mset fst (mset (zip df ks))"
    by (simp add: s sort_values_desc_mset)
  also have "\<dots> = mset (map fst (zip df ks))"
    by simp
  also have "\<dots> = mset df"
    using len by (simp only: map_fst_zip)
  finally show ?thesis .
qed

lemma rows_of_period_mset:
  assumes "mset s = mset df"
  shows "length (rows_of_period d s) = length (rows_of_period d df)"
proof -
  have "mset (rows_of_period d s) = mset (rows_of_period d df)"
    using assms by (simp add: rows_of_period_def)
  then show ?thesis
    by (rule mset_eq_length)
qed

lemma rows_of_period_loaded:
  assumes "d \<noteq> []"
  shows "rows_of_period d (filter (\<lambda>r. nalja r \<noteq> Str []) df) = rows_of_period d df"
proof -
  have "(nalja r \<noteq> Str [] \<and> nalja r = Str d) = (nalja r = Str d)" for r :: "cell activity"
    using assms by auto
  then show ?thesis
    by (simp add: rows_of_period_def conj_commute)
qed

lemma rows_of_period_new_records:
  "rows_of_period d (new_records d ms) = new_records d ms"
  by (induction ms) (simp_all add: rows_of_period_def new_records_def blank_record_def)

lemma month_label_nonempty: "month_label tm = Some d \<Longrightarrow> d \<noteq> []"
  by (auto simp: month_label_def WOL_def str_endswith_def split: if_splits option.splits)

text \<open>
  One pass of the loop body adds to the sheet of its zone as many rows of the period as
  the zone has active members in the roster, and leaves the other sheets alone.
\<close>

lemma provision_zone_count:
  assumes "provision_zone ti fdf d zone st = Some st'" and "d \<noteq> []"
  shows "length (rows_of_period d (load_zone_data (fst st') z))
         = length (rows_of_period d (load_zone_data (fst st) z))
           + (if z = zone \<and> zone \<noteq> []
              then length (filter (\<lambda>m. m_guyeok m = zone \<and> m_sangtae m = JAEJEOK) fdf)
              else 0)"
proof (cases "zone = [] \<or> filter (\<lambda>m. m_guyeok m = zone \<and> m_sangtae m = JAEJEOK) fdf = []")
  case True
  then have "st' = st"
    using assms(1) by (auto simp: provision_zone_def Let_def split: if_splits)
  then show ?thesis
    using True by auto
next
  case False
  let ?ms = "filter (\<lambda>m. m_guyeok m = zone \<and> m_sangtae m = JAEJEOK) fdf"
  let ?old = "load_zone_data (fst st) zone"
  let ?comb = "new_records d ?ms @ ?old"
  have comb: "(if ?old \<noteq> [] then new_records d ?ms @ ?old else new_records d ?ms) = ?comb"
    by simp
  obtain s where s: "sort_by_month ti ?comb = Some s"
    and st': "fst st' = save_zone_data (fst st) zone s"
    using assms(1) False
    by (auto simp: provision_zone_def Let_def comb simp del: append_Nil2 split: option.splits)
  show ?thesis
  proof (cases "z = zone")
    case True
    have "length (rows_of_period d (load_zone_data (fst st') z))
          = length (rows_of_period d s)"
      using True st' assms(2) by (simp add: load_save_same rows_of_period_loaded)
    also have "\<dots> = length (rows_of_period d ?comb)"
      using sort_by_month_mset [OF s] by (rule rows_of_period_mset)
    also have "\<dots> = length (new_records d ?ms) + length (rows_of_period d ?old)"
      using rows_of_period_new_records [of d ?ms] by (simp add: rows_of_period_def)
    finally show ?thesis
      using True False by (simp add: new_records_def)
  next
    case False
    then show ?thesis
      using st' by (simp add: load_save_other)
  qed
qed

lemma provision_loop_count:
  assumes "provision_loop ti fdf d zones st = (c', Some n')" and "d \<noteq> []"
    and "distinct zones"
  shows "length (rows_of_period d (load_zone_data c' z))
         = length (rows_of_period d (load_zone_data (fst st) z))
           + (if z \<in> set zones \<and> z \<noteq> []
              then length (filter (\<lambda>m. m_guyeok m = z \<and> m_sangtae m = JAEJEOK) fdf)
              else 0)"
  using assms
proof (induction zones arbitrary: st)
  case Nil
  then show ?case by simp
next
  case (Cons zone zones)
  obtain st1 where st1: "provision_zone ti fdf d zone st = Some st1"
    and rest: "provision_loop ti fdf d zones st1 = (c', Some n')"
    using Cons.prems(1) by (auto split: option.splits)
  have d: "distinct zones" and nz: "zone \<notin> set zones"
    using Cons.prems(3) by simp_all
  note one = provision_zone_count [OF st1 Cons.prems(2), of z]
  note more = Cons.IH [OF rest Cons.prems(2) d]
  show ?case
    using one more nz by auto
qed

text \<open>
  A run that returns \<open>True\<close> for the period label \<open>d\<close> adds to every zone's sheet one row
  of \<open>d\<close> for each active roster member of that zone, whatever rows of \<open>d\<close> are there
  already.
\<close>

lemma provision_adds_block:
  assumes run: "create_monthly_records ti client master_df target_month region_filter
                  = (client', True)"
    and label: "month_label target_month = Some d"
    and fdf: "filtered_df = (if region_filter \<noteq> JEONCHE
                             then filter (\<lambda>m. m_jiyeok m = region_filter) master_df
                             else master_df)"
    and z: "z \<noteq> []"
  shows "length (rows_of_period d (load_zone_data client' z))
         = length (rows_of_period d (load_zone_data client z))
           + length (filter (\<lambda>m. m_guyeok m = z \<and> m_sangtae m = JAEJEOK) filtered_df)"
proof -
  let ?zones = "unique (map m_guyeok filtered_df)"
  obtain n where loop: "provision_loop ti filtered_df d ?zones (client, 0) = (client', Some n)"
    using run label fdf
    by (auto simp: create_monthly_records_def Let_def split: prod.splits option.splits)
  have dist: "distinct ?zones"
    by (simp add: unique_def)
  have dne: "d \<noteq> []"
    using label by (rule month_label_nonempty)
  have out: "filter (\<lambda>m. m_guyeok m = z \<and> m_sangtae m = JAEJEOK) filtered_df = []"
    if "z \<notin> set ?zones"
    using that by (auto simp: unique_def filter_empty_conv)
  show ?thesis
    using provision_loop_count [OF loop dne dist, of z] z out by auto
qed

section \<open>Where the latest attendance is looked up\<close>

lemma filter_data_month:
  assumes "r \<in> set (filter_data df (Some ym) region zone)" and "df \<noteq> []"
  shows "year_month (nalja r) = Some ym"
  using assms by (auto simp: filter_data_def Let_def split: if_splits)

lemma person_history_dates:
  assumes "Some d \<in> set (person_history df name)"
  shows "\<exists>r\<in>set df. nalja r = Some d"
  using assms by (auto simp: person_history_def Let_def map_filter_def)

lemma last_attendance_date:
  assumes "last_attendance df name = Inr (Some d)"
  shows "\<exists>r\<in>set df. nalja r = Some d"
proof -
  have "Some d \<in> set (person_history df name)"
    using assms by (auto simp: last_attendance_def split: list.splits option.splits)
  then show ?thesis
    by (rule person_history_dates)
qed

lemma missing_list_dates:
  assumes "missing_list df rows = Inr xs" and "a \<in> set xs" and "a_last_attendance a = Some d"
  shows "\<exists>r\<in>set df. nalja r = Some d"
  using assms
proof (induction rows arbitrary: xs)
  case Nil
  then show ?case by simp
next
  case (Cons row rows)
  obtain la rest where la: "last_attendance df (ireum row) = Inr la"
    and rest: "missing_list df rows = Inr rest"
    and xs: "xs = \<lparr> a_ireum = ireum row, a_jiyeok = jiyeok row, a_guyeok = guyeok row,
                     a_jikbun = jikbun row, a_last_attendance = la \<rparr> # rest"
    using Cons.prems(1) by (auto split: sum.splits)
  show ?case
  proof (cases "a \<in> set rest")
    case True
    then show ?thesis
      using Cons.IH [OF rest] Cons.prems(3) by blast
  next
    case False
    then have "la = Some d"
      using Cons.prems(2,3) xs by auto
    then show ?thesis
      using la last_attendance_date by blast
  qed
qed

text \<open>
  With a month selected, every date in the list of absentees lies in the selected month
  itself: the list never names an earlier period.
\<close>

lemma missing_sheep_dates_in_month:
  assumes "main_missing_sheep df (Some ym) region zone = Inr xs" and "a \<in> set xs"
    and "a_last_attendance a = Some d"
  shows "year_month (Some d) = Some ym"
proof -
  let ?f = "filter_data df (Some ym) region zone"
  have ne: "?f \<noteq> []"
    using assms(1,2) by (auto simp: main_missing_sheep_def render_missing_sheep_def)
  moreover have "filter_data [] (Some ym) region zone = []"
    by (simp add: filter_data_def)
  ultimately have dfne: "df \<noteq> []"
    by auto
  have "missing_list ?f (filter (\<lambda>r. jeonche_chulgyeol r = 0)
          (filter (\<lambda>r. sangtae r = JAEJEOK) ?f)) = Inr xs"
    using assms(1,2) ne
    by (auto simp: main_missing_sheep_def render_missing_sheep_def Let_def split: if_splits)
  then obtain r where "r \<in> set ?f" and "nalja r = Some d"
    using missing_list_dates assms(2,3) by blast
  then show ?thesis
    using filter_data_month [OF _ dfne] by metis
qed

lemma missing_list_names:
  assumes "missing_list df rows = Inr xs"
  shows "map a_ireum xs = map ireum rows"
  using assms
proof (induction rows arbitrary: xs)
  case Nil
  then show ?case by simp
next
  case (Cons row rows)
  obtain la rest where rest: "missing_list df rows = Inr rest"
    and xs: "xs = \<lparr> a_ireum = ireum row, a_jiyeok = jiyeok row, a_guyeok = guyeok row,
                     a_jikbun = jikbun row, a_last_attendance = la \<rparr> # rest"
    using Cons.prems by (auto split: sum.splits)
  show ?case
    using Cons.IH [OF rest] xs by simp
qed

text \<open>
  The names in the list are those of the active rows of the table with the attendance
  flag 0, in the order of the table.
\<close>

lemma missing_sheep_names:
  assumes "render_missing_sheep df = Inr xs"
  shows "map a_ireum xs =
           map ireum (filter (\<lambda>r. jeonche_chulgyeol r = 0)
                        (filter (\<lambda>r. sangtae r = JAEJEOK) df))"
proof (cases "filter (\<lambda>r. jeonche_chulgyeol r = 0) (filter (\<lambda>r. sangtae r = JAEJEOK) df) = []")
  case True
  then have "xs = []"
    using assms by (auto simp: render_missing_sheep_def Let_def split: if_splits)
  then show ?thesis
    using True by simp
next
  case False
  then have "df \<noteq> []"
    by auto
  then have "missing_list df (filter (\<lambda>r. jeonche_chulgyeol r = 0)
               (filter (\<lambda>r. sangtae r = JAEJEOK) df)) = Inr xs"
    using assms False by (simp add: render_missing_sheep_def Let_def del: filter_filter)
  then show ?thesis
    by (rule missing_list_names)
qed

end
